theory Spec2Isabelle
  imports Complex_Main
begin

section \<open>Numbers\<close>

text \<open>
  The program computes with the \<^verbatim>\<open>number\<close> type of TypeScript. The model keeps the
  special values of that type (NaN and the two infinities) and their arithmetic, and
  computes exactly on finite values: rounding, overflow of finite results and the sign
  of zero are left out. A division of a non-zero finite value by zero does not occur
  in the modelled code; it is given the sign of the dividend.
\<close>

datatype number = Fin real | PInf | NInf | NaN

fun isNaN :: "number \<Rightarrow> bool" where
  "isNaN NaN = True"
| "isNaN _ = False"

text \<open>\<^verbatim>\<open>!v\<close> on a number: true for zero and for NaN.\<close>

fun falsy :: "number \<Rightarrow> bool" where
  "falsy (Fin a) = (a = 0)"
| "falsy NaN = True"
| "falsy _ = False"

fun isFin :: "number \<Rightarrow> bool" where
  "isFin (Fin a) = True"
| "isFin _ = False"

fun neg :: "number \<Rightarrow> number" where
  "neg (Fin a) = Fin (- a)"
| "neg PInf = NInf"
| "neg NInf = PInf"
| "neg NaN = NaN"

fun add :: "number \<Rightarrow> number \<Rightarrow> number" where
  "add (Fin a) (Fin b) = Fin (a + b)"
| "add NaN _ = NaN"
| "add _ NaN = NaN"
| "add PInf NInf = NaN"
| "add NInf PInf = NaN"
| "add PInf _ = PInf"
| "add _ PInf = PInf"
| "add NInf _ = NInf"
| "add _ NInf = NInf"

definition sub :: "number \<Rightarrow> number \<Rightarrow> number" where
  "sub a b = add a (neg b)"

text \<open>The infinity with the sign of a non-zero real.\<close>

definition signedInf :: "real \<Rightarrow> number" where
  "signedInf a = (if 0 < a then PInf else NInf)"

fun mul :: "number \<Rightarrow> number \<Rightarrow> number" where
  "mul (Fin a) (Fin b) = Fin (a * b)"
| "mul NaN _ = NaN"
| "mul _ NaN = NaN"
| "mul (Fin a) PInf = (if a = 0 then NaN else signedInf a)"
| "mul (Fin a) NInf = (if a = 0 then NaN else signedInf (- a))"
| "mul PInf (Fin b) = (if b = 0 then NaN else signedInf b)"
| "mul NInf (Fin b) = (if b = 0 then NaN else signedInf (- b))"
| "mul PInf PInf = PInf"
| "mul NInf NInf = PInf"
| "mul PInf NInf = NInf"
| "mul NInf PInf = NInf"

fun divide :: "number \<Rightarrow> number \<Rightarrow> number" where
  "divide (Fin a) (Fin b) =
     (if b = 0 then (if a = 0 then NaN else signedInf a) else Fin (a / b))"
| "divide NaN _ = NaN"
| "divide _ NaN = NaN"
| "divide (Fin a) _ = Fin 0"
| "divide PInf (Fin b) = (if b < 0 then NInf else PInf)"
| "divide NInf (Fin b) = (if b < 0 then PInf else NInf)"
| "divide _ _ = NaN"

text \<open>Comparisons: every comparison with NaN is false.\<close>

fun lt :: "number \<Rightarrow> number \<Rightarrow> bool" where
  "lt (Fin a) (Fin b) = (a < b)"
| "lt NaN _ = False"
| "lt _ NaN = False"
| "lt _ NInf = False"
| "lt PInf _ = False"
| "lt _ _ = True"

fun le :: "number \<Rightarrow> number \<Rightarrow> bool" where
  "le (Fin a) (Fin b) = (a \<le> b)"
| "le NaN _ = False"
| "le _ NaN = False"
| "le NInf _ = True"
| "le _ PInf = True"
| "le _ _ = False"

definition gt :: "number \<Rightarrow> number \<Rightarrow> bool" where
  "gt a b = lt b a"

definition ge :: "number \<Rightarrow> number \<Rightarrow> bool" where
  "ge a b = le b a"

fun Math_abs :: "number \<Rightarrow> number" where
  "Math_abs (Fin a) = Fin \<bar>a\<bar>"
| "Math_abs NaN = NaN"
| "Math_abs _ = PInf"

fun Math_sqrt :: "number \<Rightarrow> number" where
  "Math_sqrt (Fin a) = (if a < 0 then NaN else Fin (sqrt a))"
| "Math_sqrt PInf = PInf"
| "Math_sqrt _ = NaN"

text \<open>
  \<^verbatim>\<open>Math.sin\<close> and \<^verbatim>\<open>Math.cos\<close> are modelled by the exact functions on the reals. The
  runtime's functions return a rounded value, so two results at different arguments
  that are equal here need not be equal bit for bit there. No property below asserts
  that two outputs of the program computed at different angles are equal.
\<close>

fun Math_sin :: "number \<Rightarrow> number" where
  "Math_sin (Fin a) = Fin (sin a)"
| "Math_sin _ = NaN"

fun Math_cos :: "number \<Rightarrow> number" where
  "Math_cos (Fin a) = Fin (cos a)"
| "Math_cos _ = NaN"

text \<open>
  At a pole of the tangent \<^verbatim>\<open>Math.tan\<close> returns a finite number of magnitude above
  \<open>10\<^sup>1\<^sup>5\<close> (its argument is never the exact pole); the model takes an infinite value
  there. The program only divides by the result.
\<close>

fun Math_tan :: "number \<Rightarrow> number" where
  "Math_tan (Fin a) = (if cos a = 0 then signedInf (sin a) else Fin (sin a / cos a))"
| "Math_tan _ = NaN"

text \<open>\<^verbatim>\<open>Math.pow(v, 2)\<close>.\<close>

definition Math_pow2 :: "number \<Rightarrow> number" where
  "Math_pow2 v = mul v v"

definition Math_PI :: number where
  "Math_PI = Fin pi"

text \<open>A loop counter as a number.\<close>

definition ofNat :: "nat \<Rightarrow> number" where
  "ofNat n = Fin (real n)"

section \<open>math-utils\<close>

definition degToRad :: "number \<Rightarrow> number" where
  "degToRad degrees = divide (mul degrees Math_PI) (Fin 180)"

definition safeSmall :: "number \<Rightarrow> number \<Rightarrow> number" where
  "safeSmall val epsilon =
     (if lt (Math_abs val) epsilon then (if ge val (Fin 0) then epsilon else neg epsilon)
      else val)"

text \<open>The default value of the parameter \<^verbatim>\<open>epsilon\<close>.\<close>

definition epsilon_default :: number where
  "epsilon_default = Fin (1 / 1000000)"

section \<open>Types\<close>

text \<open>
  The fields \<^verbatim>\<open>x\<close>, \<^verbatim>\<open>y\<close> and \<^verbatim>\<open>z\<close> of the points are the selectors \<open>p2x\<close>, \<open>p2y\<close> and
  \<open>p3x\<close>, \<open>p3y\<close>, \<open>p3z\<close>. An optional field that is absent is \<open>None\<close>.
\<close>

record PipeParameters =
  d1 :: number
  d2 :: number
  thickness :: number
  angle :: number
  offset :: number
  weldingGap :: number
  startAngle :: number
  paddingD1 :: number
  paddingD2 :: number
  calcByID :: bool

datatype Point2D = Point2D (p2x: number) (p2y: number)

datatype Point3D = Point3D (p3x: number) (p3y: number) (p3z: number)

record GeometryResult =
  vertices :: "Point3D list"
  indices :: "nat list"
  uvs :: "number list"
  isValid :: bool
  error :: "string option"
  contour2D :: "Point2D list option"

section \<open>geometry-engine: calculateNotchGeometry\<close>

text \<open>
  The number of segments (128 when the caller gives none) and the loop counters are
  natural numbers. With no segment the quotient \<^verbatim>\<open>x / segments\<close> is \<^verbatim>\<open>0 / 0\<close>, which is
  NaN.
\<close>

text \<open>The safety guard on the diameters.\<close>

definition invalidDiameters :: "number \<Rightarrow> number \<Rightarrow> bool" where
  "invalidDiameters a b =
     (falsy a \<or> falsy b \<or> le a (Fin 0) \<or> le b (Fin 0) \<or> isNaN a \<or> isNaN b)"

definition R1_of :: "PipeParameters \<Rightarrow> number" where
  "R1_of p = divide (d1 p) (Fin 2)"

definition R2_outer_of :: "PipeParameters \<Rightarrow> number" where
  "R2_outer_of p = divide (d2 p) (Fin 2)"

definition R2_inner_of :: "PipeParameters \<Rightarrow> number" where
  "R2_inner_of p = sub (R2_outer_of p) (thickness p)"

text \<open>\<^verbatim>\<open>(x / segments) * 2 * Math.PI\<close>\<close>

definition alpha_at :: "nat \<Rightarrow> nat \<Rightarrow> number" where
  "alpha_at segments x = mul (mul (divide (ofNat x) (ofNat segments)) (Fin 2)) Math_PI"

text \<open>The term of the validity loop and of the depth check, for column \<open>x\<close>.\<close>

definition notch_term :: "PipeParameters \<Rightarrow> nat \<Rightarrow> nat \<Rightarrow> number" where
  "notch_term p segments x =
     (let R1 = R1_of p;
          R2_calc = (if calcByID p then R2_outer_of p else R2_inner_of p);
          alpha = alpha_at segments x
      in sub (Math_pow2 R1) (Math_pow2 (add (mul R2_calc (Math_sin alpha)) (offset p))))"

text \<open>The length along the branch axis of the vertex in row \<open>y\<close>, column \<open>x\<close>.\<close>

definition notch_len :: "PipeParameters \<Rightarrow> nat \<Rightarrow> nat \<Rightarrow> nat \<Rightarrow> number" where
  "notch_len p segments y x =
     (let R2_mesh = R2_outer_of p;
          angleRad = degToRad (angle p);
          sT = safeSmall (Math_sin angleRad) epsilon_default;
          tT = safeSmall (Math_tan angleRad) epsilon_default;
          pipe2Length = add (mul (d1 p) (Fin (3 / 2))) (Fin 100);
          alpha = alpha_at segments x;
          term0 = notch_term p segments x;
          term = (if lt term0 (Fin 0) then Fin 0 else term0)
      in if y = 0 then
           (let part1 = mul (divide (Fin 1) sT) (Math_sqrt term);
                part2 = divide (mul R2_mesh (Math_cos alpha)) tT
            in sub (add part1 part2) (weldingGap p))
         else add (d1 p) pipe2Length)"

text \<open>The three numbers pushed to the flat vertex array for row \<open>y\<close>, column \<open>x\<close>.\<close>

definition notch_vertex :: "PipeParameters \<Rightarrow> nat \<Rightarrow> nat \<Rightarrow> nat \<Rightarrow> number list" where
  "notch_vertex p segments y x =
     (let R2_mesh = R2_outer_of p;
          angleRad = degToRad (angle p);
          sinTheta = Math_sin angleRad;
          cosTheta = Math_cos angleRad;
          alpha = alpha_at segments x;
          sinAlpha = Math_sin alpha;
          cosAlpha = Math_cos alpha;
          len = notch_len p segments y x;
          wx = Math_sin angleRad; wy = Math_cos angleRad; wz = Fin 0;
          vx = Fin 0; vy = Fin 0; vz = Fin 1;
          ux = neg cosTheta; uy = sinTheta; uz = Fin 0;
          radComp1 = mul R2_mesh cosAlpha;
          radComp2 = add (mul R2_mesh sinAlpha) (offset p);
          pX = add (add (mul radComp1 ux) (mul radComp2 vx)) (mul len wx);
          pY = add (add (mul radComp1 uy) (mul radComp2 vy)) (mul len wy);
          pZ = add (add (mul radComp1 uz) (mul radComp2 vz)) (mul len wz)
      in [pX, pY, pZ])"

text \<open>The point pushed to \<^verbatim>\<open>contour2D\<close> in row 0, column \<open>x\<close>.\<close>

definition notch_contour_point :: "PipeParameters \<Rightarrow> nat \<Rightarrow> nat \<Rightarrow> Point2D" where
  "notch_contour_point p segments x =
     (let unrolledX = mul (divide (ofNat x) (ofNat segments))
                          (mul (mul (Fin 2) Math_PI) (R2_outer_of p))
      in Point2D unrolledX (notch_len p segments 0 x))"

text \<open>The index loop: two triangles for each column.\<close>

definition notch_indices :: "nat \<Rightarrow> nat list" where
  "notch_indices segments =
     concat (map (\<lambda>x. (let a = x; b = x + 1; c = x + segments + 1; d = x + segments + 2
                        in [a, b, d, a, d, c])) [0..<segments])"

text \<open>
  The last loop groups the flat array by three. The flat array built above always has a
  length divisible by three, so the second equation only meets the empty rest.
\<close>

fun structuredVertices :: "number list \<Rightarrow> Point3D list" where
  "structuredVertices (a # b # c # rest) = Point3D a b c # structuredVertices rest"
| "structuredVertices _ = []"

definition invalidResult :: "string \<Rightarrow> GeometryResult" where
  "invalidResult msg =
     \<lparr>vertices = [], indices = [], uvs = [], isValid = False, error = Some msg,
      contour2D = None\<rparr>"

definition calculateNotchGeometry :: "PipeParameters \<Rightarrow> nat \<Rightarrow> GeometryResult" where
  "calculateNotchGeometry p segments =
     (if invalidDiameters (d1 p) (d2 p) then invalidResult ''Invalid Diameters.''
      else if list_ex (\<lambda>x. lt (notch_term p segments x) (Fin (- (1 / 10)))) [0..<Suc segments]
        then invalidResult ''Geometry Error: Pipes do not intersect.''
      else
        \<lparr>vertices = structuredVertices
             (concat (map (\<lambda>y. concat (map (notch_vertex p segments y) [0..<Suc segments]))
                          [0..<2])),
         indices = notch_indices segments,
         uvs = concat (map (\<lambda>y. concat (map (\<lambda>x. [divide (ofNat x) (ofNat segments), ofNat y])
                                           [0..<Suc segments])) [0..<2]),
         isValid = True,
         error = None,
         contour2D = Some (map (notch_contour_point p segments) [0..<Suc segments])\<rparr>)"

section \<open>geometry-engine: calculateUnrolledPoints\<close>

datatype template = Pipe | Hole

text \<open>\<^verbatim>\<open>v || 0\<close> on a number.\<close>

definition orZero :: "number \<Rightarrow> number" where
  "orZero v = (if falsy v then Fin 0 else v)"

text \<open>
  The normalization that ends both \<^verbatim>\<open>calculatePipe2D\<close> and \<^verbatim>\<open>calculateHole2D\<close>: the
  running minimum starts at \<^verbatim>\<open>Infinity\<close>, an unchanged minimum returns the empty array,
  and every ordinate is rewritten otherwise.
\<close>

definition minY_of :: "Point2D list \<Rightarrow> number" where
  "minY_of points = foldl (\<lambda>minY p. if lt (p2y p) minY then p2y p else minY) PInf points"

definition normalizePoints :: "Point2D list \<Rightarrow> number \<Rightarrow> Point2D list" where
  "normalizePoints points padding =
     (let minY = minY_of points
      in if minY = PInf then []
         else map (\<lambda>p. Point2D (p2x p) (add (sub (p2y p) minY) padding)) points)"

text \<open>
  One pass of the loop of \<^verbatim>\<open>calculatePipe2D\<close>: \<open>None\<close> where the source continues
  without pushing a point.
\<close>

definition pipe2D_sample :: "PipeParameters \<Rightarrow> nat \<Rightarrow> nat \<Rightarrow> Point2D option" where
  "pipe2D_sample p steps i =
     (let R1 = R1_of p;
          R2_calc = (if calcByID p then R2_outer_of p else R2_inner_of p);
          R2_draw = R2_outer_of p;
          angleRad = degToRad (angle p);
          startAngleRad = degToRad (startAngle p);
          sT = safeSmall (Math_sin angleRad) epsilon_default;
          tT = safeSmall (Math_tan angleRad) epsilon_default;
          circumference = mul (mul (Fin 2) Math_PI) R2_draw;
          ratio = divide (ofNat i) (ofNat steps);
          effAngle = add (mul (mul ratio (Fin 2)) Math_PI) startAngleRad;
          x = mul ratio circumference;
          term = sub (Math_pow2 R1) (Math_pow2 (add (mul R2_calc (Math_sin effAngle)) (offset p)))
      in if lt term (Fin 0) \<and> \<not> gt term (Fin (- (1 / 10))) then None
         else
           (let term' = (if lt term (Fin 0) then Fin 0 else term);
                lengthToTouch =
                  sub (add (mul (divide (Fin 1) sT) (Math_sqrt term'))
                           (divide (mul R2_draw (Math_cos effAngle)) tT))
                      (weldingGap p)
            in Some (Point2D x lengthToTouch)))"

definition calculatePipe2D :: "PipeParameters \<Rightarrow> nat \<Rightarrow> Point2D list" where
  "calculatePipe2D p steps =
     normalizePoints (List.map_filter (pipe2D_sample p steps) [0..<Suc steps])
       (orZero (paddingD2 p))"

fun Math_atan2 :: "number \<Rightarrow> number \<Rightarrow> number" where
  "Math_atan2 (Fin b) (Fin a) =
     Fin (if 0 < a then arctan (b / a)
          else if a < 0 then (if 0 \<le> b then arctan (b / a) + pi else arctan (b / a) - pi)
          else if 0 < b then pi / 2 else if b < 0 then - (pi / 2) else 0)"
| "Math_atan2 NaN _ = NaN"
| "Math_atan2 _ NaN = NaN"
| "Math_atan2 (Fin b) PInf = Fin 0"
| "Math_atan2 (Fin b) NInf = Fin (if 0 \<le> b then pi else - pi)"
| "Math_atan2 PInf (Fin a) = Fin (pi / 2)"
| "Math_atan2 NInf (Fin a) = Fin (- (pi / 2))"
| "Math_atan2 PInf PInf = Fin (pi / 4)"
| "Math_atan2 PInf NInf = Fin (3 * pi / 4)"
| "Math_atan2 NInf PInf = Fin (- (pi / 4))"
| "Math_atan2 NInf NInf = Fin (- (3 * pi / 4))"

text \<open>One pass of the loop of \<^verbatim>\<open>calculateHole2D\<close>.\<close>

definition hole2D_sample :: "PipeParameters \<Rightarrow> nat \<Rightarrow> nat \<Rightarrow> Point2D option" where
  "hole2D_sample p steps i =
     (let R1 = R1_of p;
          R2_hole = R2_inner_of p;
          angleRad = degToRad (angle p);
          sinTheta = Math_sin angleRad;
          cosTheta = Math_cos angleRad;
          sT = safeSmall sinTheta epsilon_default;
          alpha = mul (mul (divide (ofNat i) (ofNat steps)) (Fin 2)) Math_PI;
          r2Sin = mul R2_hole (Math_sin alpha);
          r2Cos = mul R2_hole (Math_cos alpha);
          C1 = mul r2Cos cosTheta;
          C2 = add r2Sin (offset p);
          term = sub (mul R1 R1) (mul C2 C2)
      in if lt term (Fin 0) then None
         else
           (let sqrtVal = Math_sqrt term;
                t = divide (add sqrtVal C1) sT;
                x3d = sub (mul t sinTheta) (mul r2Cos cosTheta);
                z3d = add r2Sin (offset p);
                y3d = add (mul t cosTheta) (mul r2Cos sinTheta);
                phi0 = Math_atan2 z3d x3d;
                phi = (if lt phi0 (Fin 0) then add phi0 (mul (Fin 2) Math_PI) else phi0);
                phiShift0 = sub phi Math_PI;
                phiShift = (if lt phiShift0 (Fin 0) then add phiShift0 (mul (Fin 2) Math_PI)
                            else phiShift0);
                xUnroll = mul R1 phiShift;
                yUnroll = y3d
            in Some (Point2D xUnroll yUnroll)))"

definition calculateHole2D :: "PipeParameters \<Rightarrow> nat \<Rightarrow> Point2D list" where
  "calculateHole2D p steps =
     normalizePoints (List.map_filter (hole2D_sample p steps) [0..<Suc steps])
       (orZero (paddingD1 p))"

definition calculateUnrolledPoints :: "PipeParameters \<Rightarrow> template \<Rightarrow> Point2D list" where
  "calculateUnrolledPoints p type =
     (let steps = 360
      in if type = Pipe then calculatePipe2D p steps else calculateHole2D p steps)"

section \<open>dxf-writer\<close>

text \<open>
  A record of the output is a string. Numbers are printed by \<^verbatim>\<open>toFixed(4)\<close> of the
  runtime, which is a parameter of the model (\<open>toFixed4\<close>). The source's names
  \<^verbatim>\<open>closed\<close>, \<^verbatim>\<open>first\<close>, \<^verbatim>\<open>last\<close> and \<^verbatim>\<open>dist\<close> are constants of HOL; the model writes
  \<open>isClosed\<close>, \<open>firstPt\<close>, \<open>lastPt\<close> and \<open>distance\<close>.
\<close>

definition vertexRecord :: "(number \<Rightarrow> string) \<Rightarrow> number \<Rightarrow> number \<Rightarrow> string" where
  "vertexRecord toFixed4 vx vy =
     ''0\<newline>VERTEX\<newline>8\<newline>0\<newline>10\<newline>'' @ toFixed4 vx @ ''\<newline>20\<newline>''
       @ toFixed4 vy @ ''\<newline>30\<newline>0.0\<newline>''"

definition polylineRecord :: "bool \<Rightarrow> string" where
  "polylineRecord isClosed =
     ''0\<newline>POLYLINE\<newline>8\<newline>0\<newline>66\<newline>1\<newline>70\<newline>''
       @ (if isClosed then ''1'' else ''0'') @ ''\<newline>''"

definition seqEndRecord :: string where
  "seqEndRecord = ''0\<newline>SEQEND\<newline>''"

definition headerRecord :: string where
  "headerRecord = ''0\<newline>SECTION\<newline>2\<newline>ENTITIES\<newline>''"

definition footerRecord :: string where
  "footerRecord = ''0\<newline>ENDSEC\<newline>0\<newline>EOF\<newline>''"

text \<open>The writer's state is its array \<^verbatim>\<open>parts\<close>; the constructor pushes the header.\<close>

definition newDxfWriter :: "string list" where
  "newDxfWriter = [] @ [headerRecord]"

definition addPolyline ::
  "(number \<Rightarrow> string) \<Rightarrow> Point2D list \<Rightarrow> bool \<Rightarrow> string list \<Rightarrow> string list" where
  "addPolyline toFixed4 points isClosed parts =
     (if length points = 0 then parts
      else
        (let parts1 = parts @ [polylineRecord isClosed];
             parts2 = foldl (\<lambda>ps p. ps @ [vertexRecord toFixed4 (p2x p) (p2y p)]) parts1 points;
             parts3 =
               (if isClosed then
                  (let firstPt = points ! 0;
                       lastPt = points ! (length points - 1);
                       distance = Math_sqrt (add (Math_pow2 (sub (p2x firstPt) (p2x lastPt)))
                                             (Math_pow2 (sub (p2y firstPt) (p2y lastPt))))
                   in if gt distance (Fin (1 / 1000))
                      then parts2 @ [vertexRecord toFixed4 (p2x firstPt) (p2y firstPt)]
                      else parts2)
                else parts2)
         in parts3 @ [seqEndRecord]))"

definition createString :: "string list \<Rightarrow> string" where
  "createString parts = concat (parts @ [footerRecord])"

definition createDxfString :: "(number \<Rightarrow> string) \<Rightarrow> Point2D list \<Rightarrow> bool \<Rightarrow> string" where
  "createDxfString toFixed4 points isClosed =
     createString (addPolyline toFixed4 points isClosed newDxfWriter)"

section \<open>dxf-service\<close>

text \<open>
  \<^verbatim>\<open>Math.max(...vs)\<close> and \<^verbatim>\<open>Math.min(...vs)\<close>: NaN if an argument is NaN, the infinity
  of the other sign for no argument.
\<close>

definition max2 :: "number \<Rightarrow> number \<Rightarrow> number" where
  "max2 a b = (if isNaN a \<or> isNaN b then NaN else if lt a b then b else a)"

definition min2 :: "number \<Rightarrow> number \<Rightarrow> number" where
  "min2 a b = (if isNaN a \<or> isNaN b then NaN else if lt b a then b else a)"

definition Math_max :: "number list \<Rightarrow> number" where
  "Math_max vs = foldl max2 NInf vs"

definition Math_min :: "number list \<Rightarrow> number" where
  "Math_min vs = foldl min2 PInf vs"

text \<open>
  One pass of the loop of the service's own \<^verbatim>\<open>calculatePipe2D\<close>, which takes the outer
  radius for \<^verbatim>\<open>R2_calc\<close> and does not read \<^verbatim>\<open>calcByID\<close>.
\<close>

definition dxf_pipe2D_sample :: "PipeParameters \<Rightarrow> nat \<Rightarrow> Point2D option" where
  "dxf_pipe2D_sample p i =
     (let R1 = R1_of p;
          R2_outer = R2_outer_of p;
          R2_calc = R2_outer;
          R2_draw = R2_outer;
          angleRad = degToRad (angle p);
          startAngleRad = degToRad (startAngle p);
          sT = safeSmall (Math_sin angleRad) epsilon_default;
          tT = safeSmall (Math_tan angleRad) epsilon_default;
          steps = 360;
          circumference = mul (mul (Fin 2) Math_PI) R2_draw;
          ratio = divide (ofNat i) (ofNat steps);
          angleLoop = mul (mul ratio (Fin 2)) Math_PI;
          effAngle = add angleLoop startAngleRad;
          x = mul ratio circumference;
          term = sub (Math_pow2 R1) (Math_pow2 (add (mul R2_calc (Math_sin effAngle)) (offset p)))
      in if lt term (Fin 0) \<and> \<not> gt term (Fin (- (1 / 10))) then None
         else
           (let term' = (if lt term (Fin 0) then Fin 0 else term);
                lengthToTouch =
                  sub (add (mul (divide (Fin 1) sT) (Math_sqrt term'))
                           (divide (mul R2_draw (Math_cos effAngle)) tT))
                      (weldingGap p)
            in Some (Point2D x lengthToTouch)))"

definition dxf_calculatePipe2D :: "PipeParameters \<Rightarrow> Point2D list" where
  "dxf_calculatePipe2D p = List.map_filter (dxf_pipe2D_sample p) [0..<Suc 360]"

text \<open>
  The service's \<^verbatim>\<open>calculateHole2D\<close> runs the loop of the engine's function of that name
  with 360 steps and returns the points as they are.
\<close>

definition dxf_calculateHole2D :: "PipeParameters \<Rightarrow> Point2D list" where
  "dxf_calculateHole2D p = List.map_filter (hole2D_sample p 360) [0..<Suc 360]"

text \<open>
  \<^verbatim>\<open>generateDXF\<close>. The call of \<^verbatim>\<open>calculateNotchGeometry\<close> passes a third argument, which
  that function does not have. The first value given to \<^verbatim>\<open>points\<close> in the pipe branch
  (the shifted copy of the contour) is overwritten before it is read.
\<close>

definition generateDXF :: "(number \<Rightarrow> string) \<Rightarrow> template \<Rightarrow> PipeParameters \<Rightarrow> string" where
  "generateDXF toFixed4 type p =
     (let pad = orZero (if type = Pipe then paddingD2 p else paddingD1 p);
          result = calculateNotchGeometry p 360
      in if type = Pipe \<and> (\<not> isValid result \<or> contour2D result = None) then []
         else
           (let points = (if type = Pipe then dxf_calculatePipe2D p else dxf_calculateHole2D p)
            in if length points = 0 then []
               else
                 (let shiftedPoints =
                        (if type = Pipe then
                           (let maxY = Math_max (map p2y points)
                            in map (\<lambda>q. Point2D (p2x q) (add (sub maxY (p2y q)) pad)) points)
                         else
                           (let minY = Math_min (map p2y points)
                            in map (\<lambda>q. Point2D (p2x q) (add (sub (p2y q) minY) pad)) points));
                      dxf0 = headerRecord;
                      dxf1 = dxf0 @ polylineRecord (type = Hole);
                      dxf2 = foldl (\<lambda>dxf q. dxf @ vertexRecord toFixed4 (p2x q) (p2y q))
                               dxf1 shiftedPoints;
                      dxf3 =
                        (if type = Pipe then
                           (let lastX = p2x (shiftedPoints ! (length shiftedPoints - 1))
                            in dxf2 @ vertexRecord toFixed4 lastX (Fin 0)
                                 @ vertexRecord toFixed4 (Fin 0) (Fin 0))
                         else dxf2);
                      dxf4 = dxf3 @ seqEndRecord;
                      dxf5 =
                        (if type = Hole then
                           (let maxY = add (Math_max (map p2y shiftedPoints)) pad;
                                maxX = mul Math_PI (d1 p)
                            in dxf4 @ polylineRecord True
                                 @ vertexRecord toFixed4 (Fin 0) (Fin 0)
                                 @ vertexRecord toFixed4 maxX (Fin 0)
                                 @ vertexRecord toFixed4 maxX maxY
                                 @ vertexRecord toFixed4 (Fin 0) maxY
                                 @ seqEndRecord)
                         else dxf4)
                  in dxf5 @ footerRecord)))"

section \<open>Vocabulary of the properties\<close>

text \<open>
  A diameter the safety guard rejects: zero, a negative number, \<^verbatim>\<open>-Infinity\<close> or NaN.
\<close>

fun notPositive :: "number \<Rightarrow> bool" where
  "notPositive (Fin a) = (a \<le> 0)"
| "notPositive PInf = False"
| "notPositive NInf = True"
| "notPositive NaN = True"

text \<open>The parameters of the repository's tests, and variants of them.\<close>

definition scenarioA :: PipeParameters where
  "scenarioA =
     \<lparr>d1 = Fin 100, d2 = Fin 50, thickness = Fin 5, angle = Fin 90, offset = Fin 0,
      weldingGap = Fin 0, startAngle = Fin 0, paddingD1 = Fin 20, paddingD2 = Fin 20,
      calcByID = True\<rparr>"

definition scenarioC :: PipeParameters where
  "scenarioC = scenarioA\<lparr>offset := Fin 60\<rparr>"

definition scenarioInfiniteD1 :: PipeParameters where
  "scenarioInfiniteD1 = scenarioA\<lparr>d1 := PInf\<rparr>"

definition scenarioZeroD1 :: PipeParameters where
  "scenarioZeroD1 = scenarioA\<lparr>d1 := Fin 0\<rparr>"

definition scenarioInfiniteGap :: PipeParameters where
  "scenarioInfiniteGap = scenarioA\<lparr>weldingGap := PInf\<rparr>"

text \<open>
  Parameters whose diameters, thickness, angles, offset and gap are finite numbers,
  neither NaN nor an infinity. For them every ordinate the sampling loops compute is
  finite.
\<close>

definition finiteGeometry :: "PipeParameters \<Rightarrow> bool" where
  "finiteGeometry p =
     (isFin (d1 p) \<and> isFin (d2 p) \<and> isFin (thickness p) \<and> isFin (angle p)
      \<and> isFin (offset p) \<and> isFin (weldingGap p) \<and> isFin (startAngle p))"

text \<open>The padding and the loop body that \<^verbatim>\<open>calculateUnrolledPoints\<close> uses for a template.\<close>

definition paddingFor :: "PipeParameters \<Rightarrow> template \<Rightarrow> number" where
  "paddingFor p t = orZero (if t = Pipe then paddingD2 p else paddingD1 p)"

definition unrolledSample :: "PipeParameters \<Rightarrow> template \<Rightarrow> nat \<Rightarrow> Point2D option" where
  "unrolledSample p t i = (if t = Pipe then pipe2D_sample p 360 i else hole2D_sample p 360 i)"

text \<open>
  The array \<^verbatim>\<open>points\<close> of \<^verbatim>\<open>calculateUnrolledPoints\<close> when its sampling loop ends, before
  the ordinates are shifted.
\<close>

definition rawUnrolledPoints :: "PipeParameters \<Rightarrow> template \<Rightarrow> Point2D list" where
  "rawUnrolledPoints p t = List.map_filter (unrolledSample p t) [0..<Suc 360]"

text \<open>The Euclidean distance between two points, computed on numbers.\<close>

definition euclid :: "Point2D \<Rightarrow> Point2D \<Rightarrow> number" where
  "euclid a b =
     Math_sqrt (add (Math_pow2 (sub (p2x a) (p2x b))) (Math_pow2 (sub (p2y a) (p2y b))))"

text \<open>
  The geometry \<^verbatim>\<open>generateDXF\<close> needs is unavailable: for the pipe, the notch geometry at
  360 segments is invalid or has no contour; for either template, the recomputed point
  list is empty.
\<close>

definition geometryUnavailable :: "template \<Rightarrow> PipeParameters \<Rightarrow> bool" where
  "geometryUnavailable t p =
     ((t = Pipe \<and> (\<not> isValid (calculateNotchGeometry p 360)
                    \<or> contour2D (calculateNotchGeometry p 360) = None))
      \<or> (if t = Pipe then dxf_calculatePipe2D p else dxf_calculateHole2D p) = [])"



text \<open>Parameters that select the inner radius for the intersection term.\<close>

definition scenarioInnerRadius :: PipeParameters where
  "scenarioInnerRadius =
     \<lparr>d1 = Fin 100, d2 = Fin 80, thickness = Fin 10, angle = Fin 90, offset = Fin 0,
      weldingGap = Fin 0, startAngle = Fin 0, paddingD1 = Fin 20, paddingD2 = Fin 20,
      calcByID = False\<rparr>"

section \<open>Properties of calculateNotchGeometry\<close>

lemmas notch_term_defs =
  notch_term_def R1_of_def R2_outer_of_def R2_inner_of_def alpha_at_def ofNat_def Math_PI_def
  Math_pow2_def sub_def

lemma length_structuredVertices: "length (structuredVertices xs) = length xs div 3"
  by (induction xs rule: structuredVertices.induct) simp_all

lemma length_notch_vertex: "length (notch_vertex p segments y x) = 3"
  by (simp add: notch_vertex_def Let_def)

lemma length_concat_const:
  "(\<And>x. length (f x) = k) \<Longrightarrow> length (concat (map f xs)) = k * length xs"
  by (induction xs) simp_all

lemma length_flat_row:
  "length (concat (map (notch_vertex p segments y) xs)) = 3 * length xs"
  by (rule length_concat_const) (rule length_notch_vertex)

lemma length_notch_indices: "length (notch_indices segments) = 6 * segments"
proof -
  have "length (notch_indices segments) = 6 * length [0..<segments]"
    unfolding notch_indices_def by (rule length_concat_const) (simp add: Let_def)
  then show ?thesis by simp
qed

lemma list_ex_samples: "list_ex P [0..<Suc n] = (\<exists>x\<le>n. P x)"
proof -
  have "set [0..<Suc n] = {x. x \<le> n}" by (auto simp del: upt_Suc)
  then show ?thesis unfolding list_ex_iff by blast
qed

lemma invalidDiameters_iff: "invalidDiameters a b \<longleftrightarrow> notPositive a \<or> notPositive b"
  by (cases a; cases b) (auto simp: invalidDiameters_def)

lemma invalid_diameters_result:
  "invalidDiameters (d1 p) (d2 p) \<Longrightarrow>
   calculateNotchGeometry p segments = invalidResult ''Invalid Diameters.''"
  by (simp add: calculateNotchGeometry_def)

lemma no_intersection_result:
  assumes "\<not> invalidDiameters (d1 p) (d2 p)"
    and "\<exists>x\<le>segments. lt (notch_term p segments x) (Fin (- (1 / 10)))"
  shows "calculateNotchGeometry p segments =
         invalidResult ''Geometry Error: Pipes do not intersect.''"
proof -
  have "list_ex (\<lambda>x. lt (notch_term p segments x) (Fin (- (1 / 10)))) [0..<Suc segments]"
    unfolding list_ex_samples by (rule assms(2))
  with assms(1) show ?thesis
    by (simp add: calculateNotchGeometry_def del: upt_Suc)
qed

lemma valid_result:
  assumes "\<not> invalidDiameters (d1 p) (d2 p)"
    and "\<not> (\<exists>x\<le>segments. lt (notch_term p segments x) (Fin (- (1 / 10))))"
  shows "isValid (calculateNotchGeometry p segments)"
    and "length (vertices (calculateNotchGeometry p segments)) = 2 * (segments + 1)"
    and "length (indices (calculateNotchGeometry p segments)) = 6 * segments"
    and "length (uvs (calculateNotchGeometry p segments)) = 4 * (segments + 1)"
    and "error (calculateNotchGeometry p segments) = None"
proof -
  have two: "[0..<2] = [0, Suc 0]" by (simp add: upt_rec)
  have ex: "\<not> list_ex (\<lambda>x. lt (notch_term p segments x) (Fin (- (1 / 10)))) [0..<Suc segments]"
    unfolding list_ex_samples by (rule assms(2))
  note g = assms(1)
  have row: "\<And>y. length (concat (map (\<lambda>x. [divide (ofNat x) (ofNat segments), ofNat y])
      [0..<Suc segments])) = 2 * length [0..<Suc segments]"
    by (rule length_concat_const) simp
  show "isValid (calculateNotchGeometry p segments)"
    using g ex by (simp add: calculateNotchGeometry_def del: upt_Suc)
  show "length (vertices (calculateNotchGeometry p segments)) = 2 * (segments + 1)"
    using g ex
    by (simp add: calculateNotchGeometry_def length_structuredVertices two
        length_flat_row del: upt_Suc)
  show "length (indices (calculateNotchGeometry p segments)) = 6 * segments"
    using g ex
    by (simp add: calculateNotchGeometry_def length_notch_indices del: upt_Suc)
  show "length (uvs (calculateNotchGeometry p segments)) = 4 * (segments + 1)"
    using g ex
    by (simp add: calculateNotchGeometry_def two row del: upt_Suc)
  show "error (calculateNotchGeometry p segments) = None"
    using g ex by (simp add: calculateNotchGeometry_def del: upt_Suc)
qed

lemma ge_not_lt: "ge a b \<Longrightarrow> \<not> lt a b"
  by (cases a; cases b) (simp_all add: ge_def)

lemma gt_zero_valid: "gt a (Fin 0) \<Longrightarrow> gt b (Fin 0) \<Longrightarrow> \<not> invalidDiameters a b"
  by (cases a; cases b) (simp_all add: gt_def invalidDiameters_def)

text \<open>
  C1. For positive diameters, an angle in (0, 90] and an offset for which every one of
  the \<open>segments + 1\<close> angular samples has a term of at least -0.1, and for at least one
  segment, the result is valid, has \<open>2 * (segments + 1)\<close> vertices and
  \<open>6 * segments\<close> indices.
\<close>

theorem C1_valid_mesh_sizes:
  assumes "gt (d1 p) (Fin 0)" and "gt (d2 p) (Fin 0)"
    and "gt (angle p) (Fin 0)" and "le (angle p) (Fin 90)"
    and "\<forall>x\<le>segments. ge (notch_term p segments x) (Fin (- (1 / 10)))"
    and "1 \<le> segments"
  shows "isValid (calculateNotchGeometry p segments)
       \<and> length (vertices (calculateNotchGeometry p segments)) = 2 * (segments + 1)
       \<and> length (indices (calculateNotchGeometry p segments)) = 6 * segments"
proof -
  have g: "\<not> invalidDiameters (d1 p) (d2 p)"
    using assms(1,2) by (rule gt_zero_valid)
  have s: "\<not> (\<exists>x\<le>segments. lt (notch_term p segments x) (Fin (- (1 / 10))))"
    using assms(5) ge_not_lt by blast
  show ?thesis using valid_result(1-3) [OF g s] by simp
qed

theorem C1_valid_mesh_sizes_witness:
  "gt (d1 scenarioA) (Fin 0) \<and> gt (d2 scenarioA) (Fin 0)
   \<and> gt (angle scenarioA) (Fin 0) \<and> le (angle scenarioA) (Fin 90)
   \<and> ge (notch_term scenarioA 2 0) (Fin (- (1 / 10)))
   \<and> ge (notch_term scenarioA 2 1) (Fin (- (1 / 10)))
   \<and> ge (notch_term scenarioA 2 2) (Fin (- (1 / 10)))
   \<and> (1::nat) \<le> 2
   \<and> isValid (calculateNotchGeometry scenarioA 2)
   \<and> length (vertices (calculateNotchGeometry scenarioA 2)) = 6
   \<and> length (indices (calculateNotchGeometry scenarioA 2)) = 12"
proof -
  have h1: "gt (d1 scenarioA) (Fin 0)" and h2: "gt (d2 scenarioA) (Fin 0)"
    and h3: "gt (angle scenarioA) (Fin 0)" and h4: "le (angle scenarioA) (Fin 90)"
    by (simp_all add: scenarioA_def gt_def)
  have h5: "\<forall>x\<le>2. ge (notch_term scenarioA 2 x) (Fin (- (1 / 10)))"
    by (simp add: le_Suc_eq numeral_2_eq_2 notch_term_defs scenarioA_def ge_def)
  have h6: "(1::nat) \<le> 2" by simp
  have h7: "ge (notch_term scenarioA 2 0) (Fin (- (1 / 10)))
      \<and> ge (notch_term scenarioA 2 1) (Fin (- (1 / 10)))
      \<and> ge (notch_term scenarioA 2 2) (Fin (- (1 / 10)))"
    using h5 by simp
  show ?thesis
    using C1_valid_mesh_sizes [OF h1 h2 h3 h4 h5 h6] h1 h2 h3 h4 h7 by simp
qed

text \<open>
  C2 as stated fails: a diameter of \<^verbatim>\<open>+Infinity\<close> is not finite, the guard lets it
  pass, and the result is valid.
\<close>

theorem C2_infinite_diameter_counterexample:
  "\<not> isFin (d1 scenarioInfiniteD1) \<and> isValid (calculateNotchGeometry scenarioInfiniteD1 2)"
proof -
  have g: "\<not> invalidDiameters (d1 scenarioInfiniteD1) (d2 scenarioInfiniteD1)"
    by (simp add: scenarioInfiniteD1_def scenarioA_def invalidDiameters_def)
  have s: "\<not> (\<exists>x\<le>2. lt (notch_term scenarioInfiniteD1 2 x) (Fin (- (1 / 10))))"
    by (simp add: le_Suc_eq numeral_2_eq_2 notch_term_defs scenarioInfiniteD1_def scenarioA_def)
  show ?thesis
    using valid_result(1) [OF g s] by (simp add: scenarioInfiniteD1_def)
qed

text \<open>
  C2, amended. The result is invalid in exactly two cases: (1) \<open>d1\<close> or \<open>d2\<close> is zero,
  negative, \<^verbatim>\<open>-Infinity\<close> or NaN, and then the error is "Invalid Diameters."; (2) the
  diameters pass and one of the \<open>segments + 1\<close> samples has a term below -0.1, and then
  the error is "Geometry Error: Pipes do not intersect.", which contains
  "do not intersect". Every other input gives a valid result.
\<close>

theorem C2_invalid_cases:
  "(isValid (calculateNotchGeometry p segments) = False \<longleftrightarrow>
      (notPositive (d1 p) \<or> notPositive (d2 p))
      \<or> (\<exists>x\<le>segments. lt (notch_term p segments x) (Fin (- (1 / 10)))))
   \<and> (notPositive (d1 p) \<or> notPositive (d2 p) \<longrightarrow>
        error (calculateNotchGeometry p segments) = Some ''Invalid Diameters.'')
   \<and> (\<not> (notPositive (d1 p) \<or> notPositive (d2 p))
        \<and> (\<exists>x\<le>segments. lt (notch_term p segments x) (Fin (- (1 / 10)))) \<longrightarrow>
        error (calculateNotchGeometry p segments)
          = Some (''Geometry Error: Pipes '' @ ''do not intersect'' @ ''.''))"
proof (cases "invalidDiameters (d1 p) (d2 p)")
  case True
  then show ?thesis
    using invalid_diameters_result [OF True, of segments]
    by (simp add: invalidDiameters_iff invalidResult_def)
next
  case g: False
  show ?thesis
  proof (cases "\<exists>x\<le>segments. lt (notch_term p segments x) (Fin (- (1 / 10)))")
    case True
    then show ?thesis
      using no_intersection_result [OF g True] g
      by (simp add: invalidDiameters_iff invalidResult_def)
  next
    case False
    then show ?thesis
      using valid_result(1) [OF g False] g by (auto simp: invalidDiameters_iff)
  qed
qed

theorem C2_invalid_cases_witness:
  "\<not> (notPositive (d1 scenarioC) \<or> notPositive (d2 scenarioC))
   \<and> (\<exists>x\<le>2. lt (notch_term scenarioC 2 x) (Fin (- (1 / 10))))
   \<and> isValid (calculateNotchGeometry scenarioC 2) = False
   \<and> error (calculateNotchGeometry scenarioC 2)
       = Some ''Geometry Error: Pipes do not intersect.''
   \<and> notPositive (d1 scenarioZeroD1)
   \<and> isValid (calculateNotchGeometry scenarioZeroD1 2) = False
   \<and> error (calculateNotchGeometry scenarioZeroD1 2) = Some ''Invalid Diameters.''"
proof -
  have g: "\<not> (notPositive (d1 scenarioC) \<or> notPositive (d2 scenarioC))"
    by (simp add: scenarioC_def scenarioA_def)
  have "lt (notch_term scenarioC 2 0) (Fin (- (1 / 10)))"
    by (simp add: notch_term_defs scenarioC_def scenarioA_def)
  then have s: "\<exists>x\<le>2. lt (notch_term scenarioC 2 x) (Fin (- (1 / 10)))"
    by blast
  have z: "notPositive (d1 scenarioZeroD1)"
    by (simp add: scenarioZeroD1_def)
  show ?thesis
    using C2_invalid_cases [of scenarioC 2] C2_invalid_cases [of scenarioZeroD1 2] g s z
    by simp
qed

text \<open>
  C3. An invalid result has no vertices, no indices, no uvs and no contour, and it has
  an error string; so a result with any geometry data is valid.
\<close>

theorem C3_invalid_result_empty:
  "(\<not> isValid (calculateNotchGeometry p segments) \<longrightarrow>
      vertices (calculateNotchGeometry p segments) = []
      \<and> indices (calculateNotchGeometry p segments) = []
      \<and> uvs (calculateNotchGeometry p segments) = []
      \<and> contour2D (calculateNotchGeometry p segments) = None
      \<and> error (calculateNotchGeometry p segments) \<noteq> None)
   \<and> (vertices (calculateNotchGeometry p segments) \<noteq> []
        \<or> indices (calculateNotchGeometry p segments) \<noteq> []
        \<or> uvs (calculateNotchGeometry p segments) \<noteq> []
        \<or> contour2D (calculateNotchGeometry p segments) \<noteq> None \<longrightarrow>
      isValid (calculateNotchGeometry p segments))"
  by (simp add: calculateNotchGeometry_def invalidResult_def del: upt_Suc)

theorem C3_invalid_result_empty_witness:
  "\<not> isValid (calculateNotchGeometry scenarioC 2)
   \<and> vertices (calculateNotchGeometry scenarioC 2) = []
   \<and> indices (calculateNotchGeometry scenarioC 2) = []
   \<and> uvs (calculateNotchGeometry scenarioC 2) = []
   \<and> contour2D (calculateNotchGeometry scenarioC 2) = None
   \<and> error (calculateNotchGeometry scenarioC 2) \<noteq> None
   \<and> vertices (calculateNotchGeometry scenarioA 2) \<noteq> []
   \<and> isValid (calculateNotchGeometry scenarioA 2)"
proof -
  have ga: "\<not> invalidDiameters (d1 scenarioA) (d2 scenarioA)"
    by (simp add: scenarioA_def invalidDiameters_def)
  have sa: "\<not> (\<exists>x\<le>2. lt (notch_term scenarioA 2 x) (Fin (- (1 / 10))))"
    by (simp add: le_Suc_eq numeral_2_eq_2 notch_term_defs scenarioA_def)
  have "length (vertices (calculateNotchGeometry scenarioA 2)) = 2 * (2 + 1)"
    using ga sa by (rule valid_result(2))
  then have va: "vertices (calculateNotchGeometry scenarioA 2) \<noteq> []"
    by auto
  have g: "\<not> invalidDiameters (d1 scenarioC) (d2 scenarioC)"
    by (simp add: scenarioC_def scenarioA_def invalidDiameters_def)
  have "lt (notch_term scenarioC 2 0) (Fin (- (1 / 10)))"
    by (simp add: notch_term_defs scenarioC_def scenarioA_def)
  then have s: "\<exists>x\<le>2. lt (notch_term scenarioC 2 x) (Fin (- (1 / 10)))"
    by blast
  have inv: "\<not> isValid (calculateNotchGeometry scenarioC 2)"
    using no_intersection_result [OF g s] by (simp add: invalidResult_def)
  show ?thesis
    using C3_invalid_result_empty [of scenarioC 2] C3_invalid_result_empty [of scenarioA 2]
      inv va by blast
qed

section \<open>Properties of calculateUnrolledPoints\<close>

lemma isFin_iff: "isFin v \<longleftrightarrow> (\<exists>a. v = Fin a)"
  by (cases v) simp_all

lemma isFin_add: "isFin a \<Longrightarrow> isFin b \<Longrightarrow> isFin (add a b)"
  by (cases a; cases b) simp_all

lemma isFin_sub: "isFin a \<Longrightarrow> isFin b \<Longrightarrow> isFin (sub a b)"
  by (cases a; cases b) (simp_all add: sub_def)

lemma isFin_mul: "isFin a \<Longrightarrow> isFin b \<Longrightarrow> isFin (mul a b)"
  by (cases a; cases b) simp_all

lemma isFin_pow2: "isFin a \<Longrightarrow> isFin (Math_pow2 a)"
  by (simp add: Math_pow2_def isFin_mul)

lemma isFin_sin: "isFin a \<Longrightarrow> isFin (Math_sin a)"
  by (cases a) simp_all

lemma isFin_cos: "isFin a \<Longrightarrow> isFin (Math_cos a)"
  by (cases a) simp_all

lemma isFin_divide: "isFin a \<Longrightarrow> b \<noteq> Fin 0 \<Longrightarrow> b \<noteq> NaN \<Longrightarrow> isFin (divide a b)"
  by (cases a; cases b) simp_all

lemma isFin_degToRad: "isFin a \<Longrightarrow> isFin (degToRad a)"
  by (cases a) (simp_all add: degToRad_def Math_PI_def)

lemma safeSmall_sin_divisor:
  "safeSmall (Math_sin (Fin a)) epsilon_default \<noteq> Fin 0
   \<and> safeSmall (Math_sin (Fin a)) epsilon_default \<noteq> NaN"
  by (auto simp: safeSmall_def epsilon_default_def ge_def)

lemma safeSmall_tan_divisor:
  "safeSmall (Math_tan (Fin a)) epsilon_default \<noteq> Fin 0
   \<and> safeSmall (Math_tan (Fin a)) epsilon_default \<noteq> NaN"
  by (auto simp: safeSmall_def epsilon_default_def ge_def signedInf_def)

lemma isFin_ratio: "0 < steps \<Longrightarrow> isFin (divide (ofNat i) (ofNat steps))"
  by (simp add: ofNat_def)

lemma isFin_R1: "isFin (d1 p) \<Longrightarrow> isFin (R1_of p)"
  by (cases "d1 p") (simp_all add: R1_of_def)

lemma isFin_R2_outer: "isFin (d2 p) \<Longrightarrow> isFin (R2_outer_of p)"
  by (cases "d2 p") (simp_all add: R2_outer_of_def)

lemma isFin_R2_inner: "isFin (d2 p) \<Longrightarrow> isFin (thickness p) \<Longrightarrow> isFin (R2_inner_of p)"
  by (simp add: R2_inner_of_def isFin_sub isFin_R2_outer)

lemma isFin_sqrt_clamped:
  "isFin t \<Longrightarrow> isFin (Math_sqrt (if lt t (Fin 0) then Fin 0 else t))"
  by (cases t) simp_all

lemma pipe2D_sample_before_gap:
  assumes "isFin (d1 p)" and "isFin (d2 p)" and "isFin (thickness p)" and "isFin (angle p)"
    and "isFin (offset p)" and "isFin (startAngle p)"
    and "0 < steps" and "pipe2D_sample p steps i = Some q"
  shows "\<exists>f. p2y q = sub (Fin f) (weldingGap p)"
proof -
  note f = assms(1-6)
  define R2_calc where "R2_calc = (if calcByID p then R2_outer_of p else R2_inner_of p)"
  define effAngle where "effAngle =
    add (mul (mul (divide (ofNat i) (ofNat steps)) (Fin 2)) Math_PI) (degToRad (startAngle p))"
  define trm where "trm =
    sub (Math_pow2 (R1_of p)) (Math_pow2 (add (mul R2_calc (Math_sin effAngle)) (offset p)))"
  have R2c: "isFin R2_calc"
    using f by (simp add: R2_calc_def isFin_R2_outer isFin_R2_inner)
  have eff: "isFin effAngle"
    unfolding effAngle_def using f assms(7)
    by (intro isFin_add isFin_mul isFin_ratio isFin_degToRad) (simp_all add: Math_PI_def)
  have trm: "isFin trm"
    unfolding trm_def using f R2c eff
    by (intro isFin_sub isFin_pow2 isFin_add isFin_mul isFin_sin isFin_R1)
  obtain th where th: "degToRad (angle p) = Fin th"
    using isFin_degToRad [OF f(4)] by (auto simp: isFin_iff)
  define before where "before =
    add (mul (divide (Fin 1) (safeSmall (Math_sin (Fin th)) epsilon_default))
             (Math_sqrt (if lt trm (Fin 0) then Fin 0 else trm)))
        (divide (mul (R2_outer_of p) (Math_cos effAngle))
                (safeSmall (Math_tan (Fin th)) epsilon_default))"
  have y: "p2y q = sub before (weldingGap p)"
    using assms(8) th
    by (auto simp: pipe2D_sample_def Let_def trm_def effAngle_def R2_calc_def before_def
        split: if_splits simp del: Math_sin.simps Math_tan.simps)
  have "isFin before"
    unfolding before_def
    using f eff trm safeSmall_sin_divisor [of th] safeSmall_tan_divisor [of th]
    by (intro isFin_add isFin_mul isFin_divide isFin_sqrt_clamped isFin_cos
        isFin_R2_outer) (simp_all del: Math_sin.simps Math_tan.simps)
  then show ?thesis using y by (auto simp: isFin_iff)
qed

lemma pipe2D_sample_finite:
  assumes "finiteGeometry p" and "0 < steps" and "pipe2D_sample p steps i = Some q"
  shows "isFin (p2y q)"
proof -
  from assms(1) have f: "isFin (d1 p)" "isFin (d2 p)" "isFin (thickness p)" "isFin (angle p)"
    "isFin (offset p)" "isFin (startAngle p)" and gap: "isFin (weldingGap p)"
    by (simp_all add: finiteGeometry_def)
  from pipe2D_sample_before_gap [OF f assms(2,3)] gap show ?thesis
    by (auto simp: isFin_sub)
qed

lemma isFin_sqrt_nonneg: "isFin t \<Longrightarrow> \<not> lt t (Fin 0) \<Longrightarrow> isFin (Math_sqrt t)"
  by (cases t) simp_all

lemma hole2D_sample_finite:
  assumes "finiteGeometry p" and "0 < steps" and "hole2D_sample p steps i = Some q"
  shows "isFin (p2y q)"
proof -
  from assms(1) have f: "isFin (d1 p)" "isFin (d2 p)" "isFin (thickness p)" "isFin (angle p)"
    "isFin (offset p)"
    by (simp_all add: finiteGeometry_def)
  define alpha where "alpha = mul (mul (divide (ofNat i) (ofNat steps)) (Fin 2)) Math_PI"
  define r2Sin where "r2Sin = mul (R2_inner_of p) (Math_sin alpha)"
  define r2Cos where "r2Cos = mul (R2_inner_of p) (Math_cos alpha)"
  define trm where "trm = sub (mul (R1_of p) (R1_of p))
    (mul (add r2Sin (offset p)) (add r2Sin (offset p)))"
  have al: "isFin alpha"
    unfolding alpha_def using assms(2)
    by (intro isFin_mul isFin_ratio) (simp_all add: Math_PI_def)
  have rs: "isFin r2Sin" and rc: "isFin r2Cos"
    unfolding r2Sin_def r2Cos_def using f al
    by (simp_all add: isFin_mul isFin_sin isFin_cos isFin_R2_inner)
  have trm: "isFin trm"
    unfolding trm_def using f rs by (intro isFin_sub isFin_mul isFin_add isFin_R1)
  obtain th where th: "degToRad (angle p) = Fin th"
    using isFin_degToRad [OF f(4)] by (auto simp: isFin_iff)
  have nn: "\<not> lt trm (Fin 0)"
    using assms(3)
    by (auto simp: hole2D_sample_def Let_def trm_def alpha_def r2Sin_def split: if_splits)
  have y: "p2y q = add (mul (divide (add (Math_sqrt trm) (mul r2Cos (Math_cos (Fin th))))
                                   (safeSmall (Math_sin (Fin th)) epsilon_default))
                           (Math_cos (Fin th)))
                      (mul r2Cos (Math_sin (Fin th)))"
    using assms(3) th
    by (auto simp: hole2D_sample_def Let_def trm_def alpha_def r2Sin_def r2Cos_def
        split: if_splits simp del: Math_sin.simps Math_cos.simps)
  show ?thesis
    unfolding y using rc trm nn safeSmall_sin_divisor [of th]
    by (intro isFin_add isFin_mul isFin_divide isFin_sqrt_nonneg isFin_cos isFin_sin)
      (simp_all del: Math_sin.simps)
qed

lemma foldl_min_Fin:
  assumes "\<forall>q\<in>set pts. isFin (p2y q)"
  shows "\<exists>m'. foldl (\<lambda>minY p. if lt (p2y p) minY then p2y p else minY) (Fin m) pts = Fin m'
           \<and> m' \<le> m \<and> (\<forall>q\<in>set pts. le (Fin m') (p2y q))
           \<and> (m' = m \<or> (\<exists>q\<in>set pts. p2y q = Fin m'))"
  using assms
proof (induction pts arbitrary: m)
  case Nil
  then show ?case by simp
next
  case (Cons q pts)
  then obtain a where a: "p2y q = Fin a" by (auto simp: isFin_iff)
  define m0 where "m0 = (if a < m then a else m)"
  from Cons.prems have rest: "\<forall>q\<in>set pts. isFin (p2y q)" by simp
  from Cons.IH [OF rest, of m0] obtain m' where
    m': "foldl (\<lambda>minY p. if lt (p2y p) minY then p2y p else minY) (Fin m0) pts = Fin m'"
      "m' \<le> m0" "\<forall>q\<in>set pts. le (Fin m') (p2y q)"
      "m' = m0 \<or> (\<exists>q\<in>set pts. p2y q = Fin m')"
    by blast
  have step: "foldl (\<lambda>minY p. if lt (p2y p) minY then p2y p else minY) (Fin m) (q # pts)
      = Fin m'"
    using m'(1) a by (auto simp: m0_def split: if_splits)
  have "m' \<le> m" "m' \<le> a" using m'(2) by (simp_all add: m0_def split: if_splits)
  moreover have "m' = m \<or> (\<exists>q'\<in>set (q # pts). p2y q' = Fin m')"
    using m'(4) a by (auto simp: m0_def split: if_splits)
  ultimately show ?case
    using step m'(3) a by auto
qed

lemma minY_of_finite:
  assumes "pts \<noteq> []" and "\<forall>q\<in>set pts. isFin (p2y q)"
  shows "\<exists>m. minY_of pts = Fin m \<and> (\<forall>q\<in>set pts. le (Fin m) (p2y q))
           \<and> (\<exists>q\<in>set pts. p2y q = Fin m)"
proof -
  obtain q rest where pts: "pts = q # rest" using assms(1) by (cases pts) auto
  obtain a where a: "p2y q = Fin a" using assms(2) pts by (auto simp: isFin_iff)
  have rest: "\<forall>q\<in>set rest. isFin (p2y q)" using assms(2) pts by simp
  from foldl_min_Fin [OF rest, of a] obtain m' where
    m': "foldl (\<lambda>minY p. if lt (p2y p) minY then p2y p else minY) (Fin a) rest = Fin m'"
      "m' \<le> a" "\<forall>q\<in>set rest. le (Fin m') (p2y q)"
      "m' = a \<or> (\<exists>q\<in>set rest. p2y q = Fin m')"
    by blast
  have "minY_of pts = Fin m'"
    using m'(1) a by (simp add: minY_of_def pts)
  moreover have "\<forall>q\<in>set pts. le (Fin m') (p2y q)"
    using m'(2,3) a pts by simp
  moreover have "\<exists>q\<in>set pts. p2y q = Fin m'"
    using m'(4) a pts by auto
  ultimately show ?thesis by blast
qed

lemma normalizePoints_Nil: "normalizePoints [] padding = []"
  by (simp add: normalizePoints_def minY_of_def)

lemma shifted_ordinate_ge:
  "\<not> isNaN padding \<Longrightarrow> le (Fin m) v \<Longrightarrow> isFin v \<Longrightarrow> le padding (add (sub v (Fin m)) padding)"
  by (cases padding; cases v) (simp_all add: sub_def)

lemma shifted_ordinate_min:
  "\<not> isNaN padding \<Longrightarrow> add (sub (Fin m) (Fin m)) padding = padding"
  by (cases padding) (simp_all add: sub_def)

lemma normalizePoints_min:
  assumes "pts \<noteq> []" and "\<forall>q\<in>set pts. isFin (p2y q)" and "\<not> isNaN padding"
  shows "normalizePoints pts padding \<noteq> []"
    and "\<exists>q\<in>set (normalizePoints pts padding). p2y q = padding"
    and "\<forall>q\<in>set (normalizePoints pts padding). ge (p2y q) padding"
proof -
  from minY_of_finite [OF assms(1,2)] obtain m where
    m: "minY_of pts = Fin m" "\<forall>q\<in>set pts. le (Fin m) (p2y q)" "\<exists>q\<in>set pts. p2y q = Fin m"
    by blast
  have eq: "normalizePoints pts padding
      = map (\<lambda>q. Point2D (p2x q) (add (sub (p2y q) (Fin m)) padding)) pts"
    by (simp add: normalizePoints_def m(1))
  show "normalizePoints pts padding \<noteq> []"
    using assms(1) by (simp add: eq)
  from m(3) obtain q where q: "q \<in> set pts" "p2y q = Fin m" by blast
  then have "p2y (Point2D (p2x q) (add (sub (p2y q) (Fin m)) padding)) = padding"
    using assms(3) by (simp add: shifted_ordinate_min)
  then show "\<exists>q\<in>set (normalizePoints pts padding). p2y q = padding"
    using q(1) unfolding eq by force
  show "\<forall>q\<in>set (normalizePoints pts padding). ge (p2y q) padding"
    unfolding eq ge_def using m(2) assms(2,3) by (auto intro: shifted_ordinate_ge)
qed

lemma orZero_not_NaN: "\<not> isNaN (orZero v)"
  by (cases v) (simp_all add: orZero_def)

lemma map_filter_eq_Nil: "List.map_filter f xs = [] \<longleftrightarrow> (\<forall>x\<in>set xs. f x = None)"
  by (induction xs) (auto simp: List.map_filter_simps split: option.splits)

lemma set_map_filter: "q \<in> set (List.map_filter f xs) \<longleftrightarrow> (\<exists>x\<in>set xs. f x = Some q)"
  by (induction xs) (auto simp: List.map_filter_simps split: option.splits)

lemma set_samples: "set [0..<Suc n] = {i. i \<le> n}"
  by (auto simp del: upt_Suc)

lemma calculateUnrolledPoints_eq:
  "calculateUnrolledPoints p t =
   normalizePoints (List.map_filter (unrolledSample p t) [0..<Suc 360]) (paddingFor p t)"
proof -
  have "unrolledSample p Pipe = pipe2D_sample p 360" "unrolledSample p Hole = hole2D_sample p 360"
    by (simp_all add: unrolledSample_def fun_eq_iff)
  then show ?thesis
    by (cases t)
      (simp_all add: calculateUnrolledPoints_def calculatePipe2D_def calculateHole2D_def
        paddingFor_def del: upt_Suc)
qed

lemma unrolledSample_finite:
  "finiteGeometry p \<Longrightarrow> unrolledSample p t i = Some q \<Longrightarrow> isFin (p2y q)"
  using pipe2D_sample_finite [of p 360 i q] hole2D_sample_finite [of p 360 i q]
  by (cases t) (simp_all add: unrolledSample_def)

lemma calculateUnrolledPoints_nonempty:
  assumes "finiteGeometry p" and "i \<le> 360" and "unrolledSample p t i \<noteq> None"
  shows "calculateUnrolledPoints p t \<noteq> []"
proof -
  define raw where "raw = List.map_filter (unrolledSample p t) [0..<Suc 360]"
  have fin: "\<forall>q\<in>set raw. isFin (p2y q)"
    unfolding raw_def using unrolledSample_finite [OF assms(1)]
    by (auto simp: set_map_filter simp del: upt_Suc)
  have "raw \<noteq> []"
    unfolding raw_def map_filter_eq_Nil set_samples using assms(2,3) by auto
  from normalizePoints_min(1) [OF this fin] show ?thesis
    by (simp only: calculateUnrolledPoints_eq raw_def paddingFor_def orZero_not_NaN
        not_False_eq_True)
qed

lemma foldl_min_NInf:
  "\<forall>q\<in>set pts. p2y q = NInf \<Longrightarrow>
   foldl (\<lambda>minY p. if lt (p2y p) minY then p2y p else minY) NInf pts = NInf"
  by (induction pts) simp_all

lemma minY_of_all_NInf:
  assumes "pts \<noteq> []" and "\<forall>q\<in>set pts. p2y q = NInf"
  shows "minY_of pts = NInf"
proof -
  obtain q rest where pts: "pts = q # rest" using assms(1) by (cases pts) auto
  then show ?thesis
    using assms(2) foldl_min_NInf [of rest] by (simp add: minY_of_def)
qed

lemma normalizePoints_all_NInf:
  assumes "pts \<noteq> []" and "\<forall>q\<in>set pts. p2y q = NInf"
  shows "normalizePoints pts padding \<noteq> []"
    and "list_all (\<lambda>q. p2y q = NaN) (normalizePoints pts padding)"
  using assms
  by (simp_all add: normalizePoints_def minY_of_all_NInf [OF assms] list_all_iff sub_def)

lemma rawUnrolledPoints_eq:
  "calculateUnrolledPoints p t = normalizePoints (rawUnrolledPoints p t) (paddingFor p t)"
  by (simp only: calculateUnrolledPoints_eq rawUnrolledPoints_def)

text \<open>
  C4 as stated fails: with \<^verbatim>\<open>weldingGap = +Infinity\<close> every ordinate the loop computes is
  \<^verbatim>\<open>-Infinity\<close>, so is their minimum, and the shift \<^verbatim>\<open>y - minY + padding\<close> makes every
  returned ordinate NaN: the result is not empty and no ordinate equals the padding 20.
\<close>

theorem C4_infinite_gap_counterexample:
  "calculateUnrolledPoints scenarioInfiniteGap Pipe \<noteq> []
   \<and> list_all (\<lambda>q. p2y q = NaN) (calculateUnrolledPoints scenarioInfiniteGap Pipe)
   \<and> paddingFor scenarioInfiniteGap Pipe = Fin 20"
proof -
  have f: "isFin (d1 scenarioInfiniteGap)" "isFin (d2 scenarioInfiniteGap)"
    "isFin (thickness scenarioInfiniteGap)" "isFin (angle scenarioInfiniteGap)"
    "isFin (offset scenarioInfiniteGap)" "isFin (startAngle scenarioInfiniteGap)"
    and gap: "weldingGap scenarioInfiniteGap = PInf"
    by (simp_all add: scenarioInfiniteGap_def scenarioA_def)
  have all: "\<forall>q\<in>set (rawUnrolledPoints scenarioInfiniteGap Pipe). p2y q = NInf"
  proof
    fix q assume "q \<in> set (rawUnrolledPoints scenarioInfiniteGap Pipe)"
    then obtain i where "pipe2D_sample scenarioInfiniteGap 360 i = Some q"
      by (auto simp: rawUnrolledPoints_def set_map_filter unrolledSample_def simp del: upt_Suc)
    from pipe2D_sample_before_gap [OF f _ this] show "p2y q = NInf"
      by (auto simp: gap sub_def)
  qed
  have "unrolledSample scenarioInfiniteGap Pipe 0 \<noteq> None"
    by (simp add: unrolledSample_def pipe2D_sample_def Let_def scenarioInfiniteGap_def
        scenarioA_def R1_of_def R2_outer_of_def ofNat_def Math_PI_def Math_pow2_def sub_def
        degToRad_def)
  moreover have "(0::nat) \<in> set [0..<Suc 360]" by (simp del: upt_Suc)
  ultimately have ne: "rawUnrolledPoints scenarioInfiniteGap Pipe \<noteq> []"
    unfolding rawUnrolledPoints_def map_filter_eq_Nil by metis
  have pad: "paddingFor scenarioInfiniteGap Pipe = Fin 20"
    by (simp add: paddingFor_def orZero_def scenarioInfiniteGap_def scenarioA_def)
  from normalizePoints_all_NInf [OF ne all] pad show ?thesis
    by (simp add: rawUnrolledPoints_eq)
qed

text \<open>
  C4, amended. \<^verbatim>\<open>calculateUnrolledPoints\<close> returns the array of its sampling loop with the
  ordinates shifted. For both template kinds, when every ordinate in the loop's array is
  a finite number: if the result is not empty, some point has the padding as its
  ordinate and no point lies below it, so the minimum ordinate equals the padding
  (\<^verbatim>\<open>paddingD2\<close> for the pipe, \<^verbatim>\<open>paddingD1\<close> for the hole, a falsy padding counting as 0)
  exactly, hence within any tolerance; and if the result is empty, every sample was
  skipped. For every parameter record, if every sample is skipped the result is the
  empty array.
\<close>

theorem C4_normalized_minimum:
  "calculateUnrolledPoints p t = normalizePoints (rawUnrolledPoints p t) (paddingFor p t)
   \<and> ((\<forall>q\<in>set (rawUnrolledPoints p t). isFin (p2y q))
        \<and> calculateUnrolledPoints p t \<noteq> [] \<longrightarrow>
          (\<exists>q\<in>set (calculateUnrolledPoints p t). p2y q = paddingFor p t)
          \<and> (\<forall>q\<in>set (calculateUnrolledPoints p t). ge (p2y q) (paddingFor p t)))
   \<and> ((\<forall>q\<in>set (rawUnrolledPoints p t). isFin (p2y q))
        \<and> calculateUnrolledPoints p t = [] \<longrightarrow> (\<forall>i\<le>360. unrolledSample p t i = None))
   \<and> ((\<forall>i\<le>360. unrolledSample p t i = None) \<longrightarrow> calculateUnrolledPoints p t = [])"
proof -
  define raw where "raw = rawUnrolledPoints p t"
  have res: "calculateUnrolledPoints p t = normalizePoints raw (paddingFor p t)"
    by (simp only: rawUnrolledPoints_eq raw_def)
  have nn: "\<not> isNaN (paddingFor p t)"
    by (simp add: paddingFor_def orZero_not_NaN)
  have b: "raw = [] \<longleftrightarrow> (\<forall>i\<le>360. unrolledSample p t i = None)"
    unfolding raw_def rawUnrolledPoints_def map_filter_eq_Nil set_samples by simp
  have a: "(\<exists>q\<in>set (calculateUnrolledPoints p t). p2y q = paddingFor p t)
          \<and> (\<forall>q\<in>set (calculateUnrolledPoints p t). ge (p2y q) (paddingFor p t))"
    if fin: "\<forall>q\<in>set raw. isFin (p2y q)" and ne: "calculateUnrolledPoints p t \<noteq> []"
  proof -
    from ne have "raw \<noteq> []" unfolding res by (auto simp: normalizePoints_Nil)
    from normalizePoints_min(2,3) [OF this fin nn] show ?thesis unfolding res by blast
  qed
  have c: "\<forall>i\<le>360. unrolledSample p t i = None"
    if fin: "\<forall>q\<in>set raw. isFin (p2y q)" and e: "calculateUnrolledPoints p t = []"
  proof -
    have "raw = []"
      using normalizePoints_min(1) [OF _ fin nn] e unfolding res by blast
    then show ?thesis by (simp only: b)
  qed
  have d: "calculateUnrolledPoints p t = []" if "\<forall>i\<le>360. unrolledSample p t i = None"
  proof -
    from that have "raw = []" by (simp only: b)
    then show ?thesis unfolding res by (simp add: normalizePoints_Nil)
  qed
  from res a c d show ?thesis unfolding raw_def by blast
qed

theorem C4_normalized_minimum_witness:
  "list_all (\<lambda>q. isFin (p2y q)) (rawUnrolledPoints scenarioA Pipe)
   \<and> calculateUnrolledPoints scenarioA Pipe \<noteq> []
   \<and> (\<exists>q\<in>set (calculateUnrolledPoints scenarioA Pipe). p2y q = Fin 20)"
proof -
  have f: "finiteGeometry scenarioA"
    by (simp add: finiteGeometry_def scenarioA_def)
  have fin: "\<forall>q\<in>set (rawUnrolledPoints scenarioA Pipe). isFin (p2y q)"
    unfolding rawUnrolledPoints_def using unrolledSample_finite [OF f]
    by (auto simp: set_map_filter simp del: upt_Suc)
  have "unrolledSample scenarioA Pipe 0 \<noteq> None"
    by (simp add: unrolledSample_def pipe2D_sample_def Let_def scenarioA_def R1_of_def
        R2_outer_of_def ofNat_def Math_PI_def Math_pow2_def sub_def degToRad_def)
  then have ne: "calculateUnrolledPoints scenarioA Pipe \<noteq> []"
    using calculateUnrolledPoints_nonempty [OF f, of 0 Pipe] by simp
  have pad: "paddingFor scenarioA Pipe = Fin 20"
    by (simp add: paddingFor_def orZero_def scenarioA_def)
  from C4_normalized_minimum [of scenarioA Pipe] fin ne
  have "\<exists>q\<in>set (calculateUnrolledPoints scenarioA Pipe). p2y q = paddingFor scenarioA Pipe"
    by blast
  with fin ne pad show ?thesis by (simp add: list_all_iff)
qed


section \<open>Properties of the hole contour\<close>

lemma radii_calcByID:
  "R1_of (p\<lparr>calcByID := b\<rparr>) = R1_of p"
  "R2_outer_of (p\<lparr>calcByID := b\<rparr>) = R2_outer_of p"
  "R2_inner_of (p\<lparr>calcByID := b\<rparr>) = R2_inner_of p"
  by (simp_all add: R1_of_def R2_inner_of_def R2_outer_of_def)

lemma hole2D_sample_calcByID: "hole2D_sample (p\<lparr>calcByID := b\<rparr>) = hole2D_sample p"
  unfolding fun_eq_iff hole2D_sample_def radii_calcByID Let_def by simp

text \<open>
  C8. The hole contour does not depend on \<^verbatim>\<open>calcByID\<close>: two parameter records that differ
  only in that flag give the same points, from \<^verbatim>\<open>calculateUnrolledPoints\<close> and from the
  DXF service's \<^verbatim>\<open>calculateHole2D\<close> alike; the radius of the hole is always
  \<open>d2 / 2 - thickness\<close>.
\<close>

theorem C8_hole_ignores_calcByID:
  "calculateUnrolledPoints (p\<lparr>calcByID := b\<rparr>) Hole = calculateUnrolledPoints p Hole
   \<and> dxf_calculateHole2D (p\<lparr>calcByID := b\<rparr>) = dxf_calculateHole2D p"
  by (simp add: calculateUnrolledPoints_def calculateHole2D_def dxf_calculateHole2D_def
      hole2D_sample_calcByID del: upt_Suc)

theorem C8_hole_ignores_calcByID_witness:
  "calculateUnrolledPoints (scenarioA\<lparr>calcByID := False\<rparr>) Hole = calculateUnrolledPoints scenarioA Hole"
  using C8_hole_ignores_calcByID [where p = scenarioA and b = False] by simp

section \<open>Properties of the DXF writer\<close>

lemma foldl_push: "foldl (\<lambda>ps q. ps @ [f q]) parts xs = parts @ map f xs"
  by (induction xs arbitrary: parts) simp_all

lemma euclid_Fin:
  "euclid (Point2D (Fin a) (Fin b)) (Point2D (Fin c) (Fin d)) = Fin (sqrt ((a - c)\<^sup>2 + (b - d)\<^sup>2))"
  by (simp add: euclid_def Math_pow2_def sub_def power2_eq_square not_less)

text \<open>
  C9. For a non-empty point list \<^verbatim>\<open>addPolyline\<close> appends the polyline record, one VERTEX
  record for each point in order, one more VERTEX record repeating the first point
  exactly when the polyline is closed and the distance between the first and the last
  point exceeds 0.001, and the SEQEND record. The polyline record ends with group code 70
  and the value 1 for a closed polyline, 0 for an open one.
\<close>

theorem C9_polyline_records:
  assumes "points \<noteq> []"
  shows "addPolyline toFixed4 points isClosed parts =
           parts @ [polylineRecord isClosed]
             @ map (\<lambda>q. vertexRecord toFixed4 (p2x q) (p2y q)) points
             @ (if isClosed \<and> gt (euclid (hd points) (last points)) (Fin (1 / 1000))
                then [vertexRecord toFixed4 (p2x (hd points)) (p2y (hd points))] else [])
             @ [seqEndRecord]
         \<and> polylineRecord isClosed =
             ''0\<newline>POLYLINE\<newline>8\<newline>0\<newline>66\<newline>1\<newline>70\<newline>''
               @ (if isClosed then ''1'' else ''0'') @ ''\<newline>''"
proof -
  have h: "points ! 0 = hd points" and l: "points ! (length points - Suc 0) = last points"
    using assms by (simp_all add: hd_conv_nth last_conv_nth)
  show ?thesis
    using assms
    by (simp add: addPolyline_def Let_def foldl_push h l euclid_def polylineRecord_def)
qed

theorem C9_polyline_records_witness:
  "\<forall>toFixed4.
     [Point2D (Fin 0) (Fin 0), Point2D (Fin 1) (Fin 0)] \<noteq> []
     \<and> addPolyline toFixed4 [Point2D (Fin 0) (Fin 0), Point2D (Fin 1) (Fin 0)] True []
         = [polylineRecord True, vertexRecord toFixed4 (Fin 0) (Fin 0),
            vertexRecord toFixed4 (Fin 1) (Fin 0), vertexRecord toFixed4 (Fin 0) (Fin 0),
            seqEndRecord]
     \<and> addPolyline toFixed4 [Point2D (Fin 0) (Fin 0), Point2D (Fin 0) (Fin 0)] True []
         = [polylineRecord True, vertexRecord toFixed4 (Fin 0) (Fin 0),
            vertexRecord toFixed4 (Fin 0) (Fin 0), seqEndRecord]"
proof
  fix toFixed4 :: "number \<Rightarrow> string"
  have ne: "[Point2D (Fin 0) (Fin 0), Point2D (Fin 1) (Fin 0)] \<noteq> []"
    and ne': "[Point2D (Fin 0) (Fin 0), Point2D (Fin 0) (Fin 0)] \<noteq> []" by simp_all
  show "[Point2D (Fin 0) (Fin 0), Point2D (Fin 1) (Fin 0)] \<noteq> []
     \<and> addPolyline toFixed4 [Point2D (Fin 0) (Fin 0), Point2D (Fin 1) (Fin 0)] True []
         = [polylineRecord True, vertexRecord toFixed4 (Fin 0) (Fin 0),
            vertexRecord toFixed4 (Fin 1) (Fin 0), vertexRecord toFixed4 (Fin 0) (Fin 0),
            seqEndRecord]
     \<and> addPolyline toFixed4 [Point2D (Fin 0) (Fin 0), Point2D (Fin 0) (Fin 0)] True []
         = [polylineRecord True, vertexRecord toFixed4 (Fin 0) (Fin 0),
            vertexRecord toFixed4 (Fin 0) (Fin 0), seqEndRecord]"
    using C9_polyline_records [OF ne, of toFixed4 True "[]"]
      C9_polyline_records [OF ne', of toFixed4 True "[]"]
    by (simp add: euclid_Fin gt_def)
qed

section \<open>Properties of generateDXF\<close>

lemma foldl_append_string: "foldl (\<lambda>dxf q. dxf @ f q) s xs = s @ concat (map f xs)"
  by (induction xs arbitrary: s) simp_all

text \<open>
  C10. \<^verbatim>\<open>generateDXF\<close> is a total function whose failure is the empty string: it returns
  the empty string exactly when the geometry is unavailable, and otherwise a string that
  starts with the SECTION/ENTITIES header and ends with the ENDSEC/EOF footer.
\<close>

theorem C10_generateDXF_result:
  "(generateDXF toFixed4 t p = [] \<longleftrightarrow> geometryUnavailable t p)
   \<and> (\<not> geometryUnavailable t p \<longrightarrow>
        (\<exists>body. generateDXF toFixed4 t p = headerRecord @ body @ footerRecord))
   \<and> headerRecord = ''0\<newline>SECTION\<newline>2\<newline>ENTITIES\<newline>''
   \<and> footerRecord = ''0\<newline>ENDSEC\<newline>0\<newline>EOF\<newline>''"
proof (cases "geometryUnavailable t p")
  case True
  then have "generateDXF toFixed4 t p = []"
    by (auto simp: generateDXF_def geometryUnavailable_def Let_def split: if_splits)
  with True show ?thesis by (simp add: headerRecord_def footerRecord_def)
next
  case False
  then have "\<exists>body. generateDXF toFixed4 t p = headerRecord @ body @ footerRecord"
    by (cases t) (auto simp: generateDXF_def geometryUnavailable_def Let_def foldl_append_string)
  moreover from this have "generateDXF toFixed4 t p \<noteq> []"
    by (auto simp: headerRecord_def)
  ultimately show ?thesis using False by (simp add: headerRecord_def footerRecord_def)
qed


lemma alpha_at_Fin: "0 < segments \<Longrightarrow> alpha_at segments x = Fin (real x / real segments * 2 * pi)"
  by (simp add: alpha_at_def ofNat_def Math_PI_def)

lemma notch_term_Fin:
  assumes "0 < segments" and "d1 p = Fin a"
    and "(if calcByID p then R2_outer_of p else R2_inner_of p) = Fin r" and "offset p = Fin b"
  shows "notch_term p segments x
         = Fin ((a / 2)\<^sup>2 - (r * sin (real x / real segments * 2 * pi) + b)\<^sup>2)"
  using assms(2-4)
  by (simp add: notch_term_def Let_def alpha_at_Fin [OF assms(1)] R1_of_def Math_pow2_def
      sub_def power2_eq_square)

lemma square_bound:
  fixes r s b c :: real
  assumes "\<bar>r\<bar> + \<bar>b\<bar> \<le> c" and "\<bar>s\<bar> \<le> 1"
  shows "(r * s + b)\<^sup>2 \<le> c\<^sup>2"
proof -
  have "\<bar>r * s\<bar> \<le> \<bar>r\<bar>"
    using assms(2) by (simp add: abs_mult mult_left_le)
  then have "\<bar>r * s + b\<bar> \<le> \<bar>c\<bar>" using assms(1) by linarith
  then show ?thesis by (simp only: abs_le_square_iff)
qed

lemma notch_valid_sufficient:
  assumes "0 < segments" and "d1 p = Fin a"
    and "(if calcByID p then R2_outer_of p else R2_inner_of p) = Fin r" and "offset p = Fin b"
    and "\<bar>r\<bar> + \<bar>b\<bar> \<le> a / 2"
  shows "\<not> (\<exists>x\<le>segments. lt (notch_term p segments x) (Fin (- (1 / 10))))"
proof -
  have "(r * sin t + b)\<^sup>2 \<le> (a / 2)\<^sup>2" for t
    using square_bound [OF assms(5), of "sin t"] by simp
  then show ?thesis
    unfolding notch_term_Fin [OF assms(1-4)] by (auto simp: not_less intro: order_trans [of _ 0])
qed

lemma scenarioA_valid_360:
  "isValid (calculateNotchGeometry scenarioA 360)"
  "contour2D (calculateNotchGeometry scenarioA 360) \<noteq> None"
proof -
  have g: "\<not> invalidDiameters (d1 scenarioA) (d2 scenarioA)"
    by (simp add: scenarioA_def invalidDiameters_def)
  have s: "\<not> (\<exists>x\<le>360. lt (notch_term scenarioA 360 x) (Fin (- (1 / 10))))"
    by (rule notch_valid_sufficient [where a = 100 and r = 25 and b = 0])
      (simp_all add: scenarioA_def R2_outer_of_def)
  show "isValid (calculateNotchGeometry scenarioA 360)"
    using valid_result(1) [OF g s] .
  then show "contour2D (calculateNotchGeometry scenarioA 360) \<noteq> None"
    by (auto simp: calculateNotchGeometry_def invalidResult_def split: if_splits simp del: upt_Suc)
qed

lemma scenarioA_dxf_points: "dxf_calculatePipe2D scenarioA \<noteq> []"
proof -
  have "dxf_pipe2D_sample scenarioA 0 \<noteq> None"
    by (simp add: dxf_pipe2D_sample_def Let_def scenarioA_def R1_of_def
        R2_outer_of_def ofNat_def Math_PI_def Math_pow2_def sub_def degToRad_def)
  moreover have "(0::nat) \<in> set [0..<Suc 360]" by (simp del: upt_Suc)
  ultimately show ?thesis
    unfolding dxf_calculatePipe2D_def map_filter_eq_Nil by metis
qed

lemma scenarioC_invalid_360: "\<not> isValid (calculateNotchGeometry scenarioC 360)"
proof -
  have g: "\<not> invalidDiameters (d1 scenarioC) (d2 scenarioC)"
    by (simp add: scenarioC_def scenarioA_def invalidDiameters_def)
  have "lt (notch_term scenarioC 360 0) (Fin (- (1 / 10)))"
    by (simp add: notch_term_defs scenarioC_def scenarioA_def)
  then have s: "\<exists>x\<le>360. lt (notch_term scenarioC 360 x) (Fin (- (1 / 10)))"
    by blast
  show ?thesis
    using no_intersection_result [OF g s] by (simp add: invalidResult_def)
qed

theorem C10_generateDXF_result_witness:
  "\<forall>toFixed4.
     geometryUnavailable Pipe scenarioC
     \<and> generateDXF toFixed4 Pipe scenarioC = []
     \<and> \<not> geometryUnavailable Pipe scenarioA
     \<and> (\<exists>body. generateDXF toFixed4 Pipe scenarioA = headerRecord @ body @ footerRecord)"
proof
  fix toFixed4 :: "number \<Rightarrow> string"
  have u: "geometryUnavailable Pipe scenarioC"
    using scenarioC_invalid_360 by (simp add: geometryUnavailable_def)
  have a: "\<not> geometryUnavailable Pipe scenarioA"
    using scenarioA_valid_360 scenarioA_dxf_points by (simp add: geometryUnavailable_def)
  show "geometryUnavailable Pipe scenarioC
     \<and> generateDXF toFixed4 Pipe scenarioC = []
     \<and> \<not> geometryUnavailable Pipe scenarioA
     \<and> (\<exists>body. generateDXF toFixed4 Pipe scenarioA = headerRecord @ body @ footerRecord)"
    using C10_generateDXF_result [of toFixed4 Pipe scenarioC]
      C10_generateDXF_result [of toFixed4 Pipe scenarioA] u a by blast
qed


section \<open>Monotonicity in the offset\<close>








lemma NaN_right [simp]:
  "mul v NaN = NaN" "add v NaN = NaN" "divide v NaN = NaN" "lt v NaN = False" "le v NaN = False"
  by (cases v; simp)+














section \<open>The radius of the intersection term\<close>

lemmas pipe2D_defs =
  pipe2D_sample_def Let_def R1_of_def R2_outer_of_def R2_inner_of_def ofNat_def Math_PI_def
  Math_pow2_def sub_def degToRad_def safeSmall_def epsilon_default_def ge_def gt_def signedInf_def

text \<open>
  The DXF service's \<^verbatim>\<open>calculatePipe2D\<close> computes what the engine's function of that name
  computes for \<^verbatim>\<open>calcByID = true\<close>, whatever the flag is.
\<close>

lemma dxf_pipe2D_sample_as_engine:
  "dxf_pipe2D_sample p i = pipe2D_sample (p\<lparr>calcByID := True\<rparr>) 360 i"
  unfolding dxf_pipe2D_sample_def pipe2D_sample_def radii_calcByID Let_def by simp

text \<open>
  C5. With \<^verbatim>\<open>calcByID = false\<close>, \<open>d1 = 100\<close>, \<open>d2 = 80\<close> and \<open>thickness = 10\<close> the mesh pass
  and the engine's contour pass take the inner radius 30 in the intersection term: at a
  quarter turn the term is \<open>50\<^sup>2 - 30\<^sup>2\<close> and the depth is 40. The DXF service's contour
  pass takes the outer radius 40 there and returns the depth 30.
\<close>

theorem C5_dxf_service_ignores_calcByID:
  "calcByID scenarioInnerRadius = False
   \<and> notch_term scenarioInnerRadius 360 90 = Fin (50\<^sup>2 - 30\<^sup>2)
   \<and> p2y (notch_contour_point scenarioInnerRadius 360 90) = Fin 40
   \<and> map_option p2y (pipe2D_sample scenarioInnerRadius 360 90) = Some (Fin 40)
   \<and> map_option p2y (dxf_pipe2D_sample scenarioInnerRadius 90) = Some (Fin 30)"
  by (simp add: scenarioInnerRadius_def notch_term_defs notch_contour_point_def notch_len_def
      dxf_pipe2D_sample_def pipe2D_defs)

end
